theory Spec2Isabelle
  imports Main "HOL-Library.Monad_Syntax" "HOL-Library.Word"
begin

section \<open>CRD manifests of kosmosctl (package manifest)\<close>

text \<open>
  The constants \<open>ClusterlinkCluster\<close> and \<open>ClusterlinkNodeConfig\<close> of package
  \<open>manifest\<close> are YAML documents (CustomResourceDefinition objects). They are embedded
  as the document tree their text denotes: a mapping is an association list in the order
  of the text, a sequence is a list, and the scalars that occur are strings, booleans and
  \<open>null\<close>. Folded single-quoted descriptions are joined with one space, as YAML reads them.
\<close>

datatype yaml =
    YNull
  | YBool bool
  | YStr string
  | YSeq "yaml list"
  | YMap "(string \<times> yaml) list"

fun field :: "string \<Rightarrow> yaml \<Rightarrow> yaml option" where
  "field k (YMap kvs) = map_of kvs k"
| "field k _ = None"

fun at_path :: "string list \<Rightarrow> yaml \<Rightarrow> yaml option" where
  "at_path [] y = Some y"
| "at_path (k # ks) y = (case field k y of None \<Rightarrow> None | Some y' \<Rightarrow> at_path ks y')"

fun first_item :: "yaml \<Rightarrow> yaml option" where
  "first_item (YSeq (y # ys)) = Some y"
| "first_item _ = None"

fun keys :: "yaml \<Rightarrow> string list" where
  "keys (YMap kvs) = map fst kvs"
| "keys _ = []"

fun str_of :: "yaml \<Rightarrow> string option" where
  "str_of (YStr s) = Some s"
| "str_of _ = None"

fun strs :: "yaml \<Rightarrow> string list" where
  "strs (YSeq ys) = List.map_filter str_of ys"
| "strs _ = []"

text \<open>The structural schema of the (single) version a CRD declares.\<close>

definition openAPIV3Schema :: "yaml \<Rightarrow> yaml option" where
  "openAPIV3Schema crd =
     at_path [''spec'', ''versions''] crd \<bind> first_item
       \<bind> at_path [''schema'', ''openAPIV3Schema'']"

definition property :: "string \<Rightarrow> yaml \<Rightarrow> yaml option" where
  "property p s = at_path [''properties'', p] s"

definition property_names :: "yaml \<Rightarrow> string list" where
  "property_names s = (case field ''properties'' s of None \<Rightarrow> [] | Some ps \<Rightarrow> keys ps)"

definition required_names :: "yaml \<Rightarrow> string list" where
  "required_names s = (case field ''required'' s of None \<Rightarrow> [] | Some r \<Rightarrow> strs r)"

text \<open>The schema of the entries of an array-typed property; \<open>None\<close> when the property
  is absent or is not an array.\<close>

definition entry_schema :: "string \<Rightarrow> yaml \<Rightarrow> yaml option" where
  "entry_schema p s =
     property p s \<bind>
       (\<lambda>a. if field ''type'' a = Some (YStr ''array'') then field ''items'' a else None)"

definition ClusterlinkCluster :: yaml where
  "ClusterlinkCluster = YMap [
    (''apiVersion'', YStr ''apiextensions.k8s.io/v1''),
    (''kind'', YStr ''CustomResourceDefinition''),
    (''metadata'', YMap [
      (''annotations'', YMap [
        (''controller-gen.kubebuilder.io/version'', YStr ''v0.11.0'')]),
      (''creationTimestamp'', YNull),
      (''name'', YStr ''clusters.kosmos.io'')]),
    (''spec'', YMap [
      (''group'', YStr ''kosmos.io''),
      (''names'', YMap [
        (''kind'', YStr ''Cluster''),
        (''listKind'', YStr ''ClusterList''),
        (''plural'', YStr ''clusters''),
        (''singular'', YStr ''cluster'')]),
      (''scope'', YStr ''Cluster''),
      (''versions'', YSeq [
        YMap [
          (''additionalPrinterColumns'', YSeq [
            YMap [
              (''jsonPath'', YStr ''.spec.networkType''),
              (''name'', YStr ''NETWORK_TYPE''),
              (''type'', YStr ''string'')],
            YMap [
              (''jsonPath'', YStr ''.spec.ipFamily''),
              (''name'', YStr ''IP_FAMILY''),
              (''type'', YStr ''string'')]]),
          (''name'', YStr ''v1alpha1''),
          (''schema'', YMap [
            (''openAPIV3Schema'', YMap [
              (''properties'', YMap [
                (''apiVersion'', YMap [
                  (''description'', YStr ''APIVersion defines the versioned schema of this representation of an object. Servers should convert recognized schemas to the latest internal value, and may reject unrecognized values. More info: https://git.k8s.io/community/contributors/devel/sig-architecture/api-conventions.md#resources''),
                  (''type'', YStr ''string'')]),
                (''kind'', YMap [
                  (''description'', YStr ''Kind is a string value representing the REST resource this object represents. Servers may infer this from the endpoint the client submits requests to. Cannot be updated. In CamelCase. More info: https://git.k8s.io/community/contributors/devel/sig-architecture/api-conventions.md#types-kinds''),
                  (''type'', YStr ''string'')]),
                (''metadata'', YMap [
                  (''type'', YStr ''object'')]),
                (''spec'', YMap [
                  (''description'', YStr ''Spec is the specification for the behaviour of the cluster.''),
                  (''properties'', YMap [
                    (''bridgeCIDRs'', YMap [
                      (''default'', YMap [
                        (''ip'', YStr ''220.0.0.0/8''),
                        (''ip6'', YStr ''9470::/16'')]),
                      (''properties'', YMap [
                        (''ip'', YMap [
                          (''type'', YStr ''string'')]),
                        (''ip6'', YMap [
                          (''type'', YStr ''string'')])]),
                      (''required'', YSeq [YStr ''ip'', YStr ''ip6'']),
                      (''type'', YStr ''object'')]),
                    (''cni'', YMap [
                      (''default'', YStr ''calico''),
                      (''type'', YStr ''string'')]),
                    (''defaultNICName'', YMap [
                      (''default'', YStr ''*''),
                      (''type'', YStr ''string'')]),
                    (''globalCIDRsMap'', YMap [
                      (''additionalProperties'', YMap [
                        (''type'', YStr ''string'')]),
                      (''type'', YStr ''object'')]),
                    (''imageRepository'', YMap [
                      (''type'', YStr ''string'')]),
                    (''ipFamily'', YMap [
                      (''default'', YStr ''all''),
                      (''type'', YStr ''string'')]),
                    (''kubeconfig'', YMap [
                      (''format'', YStr ''byte''),
                      (''type'', YStr ''string'')]),
                    (''localCIDRs'', YMap [
                      (''default'', YMap [
                        (''ip'', YStr ''210.0.0.0/8''),
                        (''ip6'', YStr ''9480::/16'')]),
                      (''properties'', YMap [
                        (''ip'', YMap [
                          (''type'', YStr ''string'')]),
                        (''ip6'', YMap [
                          (''type'', YStr ''string'')])]),
                      (''required'', YSeq [YStr ''ip'', YStr ''ip6'']),
                      (''type'', YStr ''object'')]),
                    (''namespace'', YMap [
                      (''default'', YStr ''clusterlink-system''),
                      (''type'', YStr ''string'')]),
                    (''networkType'', YMap [
                      (''default'', YStr ''p2p''),
                      (''enum'', YSeq [YStr ''p2p'', YStr ''gateway'']),
                      (''type'', YStr ''string'')]),
                    (''nicNodeNames'', YMap [
                      (''items'', YMap [
                        (''properties'', YMap [
                          (''interfaceName'', YMap [
                            (''type'', YStr ''string'')]),
                          (''nodeName'', YMap [
                            (''items'', YMap [
                              (''type'', YStr ''string'')]),
                            (''type'', YStr ''array'')])]),
                        (''required'', YSeq [YStr ''interfaceName'', YStr ''nodeName'']),
                        (''type'', YStr ''object'')]),
                      (''type'', YStr ''array'')]),
                    (''useIPPool'', YMap [
                      (''default'', YBool False),
                      (''type'', YStr ''boolean'')])]),
                  (''type'', YStr ''object'')]),
                (''status'', YMap [
                  (''description'', YStr ''Status describes the current status of a cluster.''),
                  (''properties'', YMap [
                    (''podCIDRs'', YMap [
                      (''items'', YMap [
                        (''type'', YStr ''string'')]),
                      (''type'', YStr ''array'')]),
                    (''serviceCIDRs'', YMap [
                      (''items'', YMap [
                        (''type'', YStr ''string'')]),
                      (''type'', YStr ''array'')])]),
                  (''type'', YStr ''object'')])]),
              (''required'', YSeq [YStr ''spec'']),
              (''type'', YStr ''object'')])]),
          (''served'', YBool True),
          (''storage'', YBool True),
          (''subresources'', YMap [])]])])]"

definition ClusterlinkNodeConfig :: yaml where
  "ClusterlinkNodeConfig = YMap [
    (''apiVersion'', YStr ''apiextensions.k8s.io/v1''),
    (''kind'', YStr ''CustomResourceDefinition''),
    (''metadata'', YMap [
      (''annotations'', YMap [
        (''controller-gen.kubebuilder.io/version'', YStr ''v0.11.0'')]),
      (''creationTimestamp'', YNull),
      (''name'', YStr ''nodeconfigs.kosmos.io'')]),
    (''spec'', YMap [
      (''group'', YStr ''kosmos.io''),
      (''names'', YMap [
        (''kind'', YStr ''NodeConfig''),
        (''listKind'', YStr ''NodeConfigList''),
        (''plural'', YStr ''nodeconfigs''),
        (''singular'', YStr ''nodeconfig'')]),
      (''scope'', YStr ''Cluster''),
      (''versions'', YSeq [
        YMap [
          (''name'', YStr ''v1alpha1''),
          (''schema'', YMap [
            (''openAPIV3Schema'', YMap [
              (''properties'', YMap [
                (''apiVersion'', YMap [
                  (''description'', YStr ''APIVersion defines the versioned schema of this representation of an object. Servers should convert recognized schemas to the latest internal value, and may reject unrecognized values. More info: https://git.k8s.io/community/contributors/devel/sig-architecture/api-conventions.md#resources''),
                  (''type'', YStr ''string'')]),
                (''kind'', YMap [
                  (''description'', YStr ''Kind is a string value representing the REST resource this object represents. Servers may infer this from the endpoint the client submits requests to. Cannot be updated. In CamelCase. More info: https://git.k8s.io/community/contributors/devel/sig-architecture/api-conventions.md#types-kinds''),
                  (''type'', YStr ''string'')]),
                (''metadata'', YMap [
                  (''type'', YStr ''object'')]),
                (''spec'', YMap [
                  (''properties'', YMap [
                    (''arps'', YMap [
                      (''items'', YMap [
                        (''properties'', YMap [
                          (''dev'', YMap [
                            (''type'', YStr ''string'')]),
                          (''ip'', YMap [
                            (''type'', YStr ''string'')]),
                          (''mac'', YMap [
                            (''type'', YStr ''string'')])]),
                        (''required'', YSeq [YStr ''dev'', YStr ''ip'', YStr ''mac'']),
                        (''type'', YStr ''object'')]),
                      (''type'', YStr ''array'')]),
                    (''devices'', YMap [
                      (''items'', YMap [
                        (''properties'', YMap [
                          (''addr'', YMap [
                            (''type'', YStr ''string'')]),
                          (''bindDev'', YMap [
                            (''type'', YStr ''string'')]),
                          (''id'', YMap [
                            (''format'', YStr ''int32''),
                            (''type'', YStr ''integer'')]),
                          (''mac'', YMap [
                            (''type'', YStr ''string'')]),
                          (''name'', YMap [
                            (''type'', YStr ''string'')]),
                          (''port'', YMap [
                            (''format'', YStr ''int32''),
                            (''type'', YStr ''integer'')]),
                          (''type'', YMap [
                            (''type'', YStr ''string'')])]),
                        (''required'', YSeq [YStr ''addr'', YStr ''bindDev'', YStr ''id'', YStr ''mac'', YStr ''name'', YStr ''port'', YStr ''type'']),
                        (''type'', YStr ''object'')]),
                      (''type'', YStr ''array'')]),
                    (''fdbs'', YMap [
                      (''items'', YMap [
                        (''properties'', YMap [
                          (''dev'', YMap [
                            (''type'', YStr ''string'')]),
                          (''ip'', YMap [
                            (''type'', YStr ''string'')]),
                          (''mac'', YMap [
                            (''type'', YStr ''string'')])]),
                        (''required'', YSeq [YStr ''dev'', YStr ''ip'', YStr ''mac'']),
                        (''type'', YStr ''object'')]),
                      (''type'', YStr ''array'')]),
                    (''iptables'', YMap [
                      (''items'', YMap [
                        (''properties'', YMap [
                          (''chain'', YMap [
                            (''type'', YStr ''string'')]),
                          (''rule'', YMap [
                            (''type'', YStr ''string'')]),
                          (''table'', YMap [
                            (''type'', YStr ''string'')])]),
                        (''required'', YSeq [YStr ''chain'', YStr ''rule'', YStr ''table'']),
                        (''type'', YStr ''object'')]),
                      (''type'', YStr ''array'')]),
                    (''routes'', YMap [
                      (''items'', YMap [
                        (''properties'', YMap [
                          (''cidr'', YMap [
                            (''type'', YStr ''string'')]),
                          (''dev'', YMap [
                            (''type'', YStr ''string'')]),
                          (''gw'', YMap [
                            (''type'', YStr ''string'')])]),
                        (''required'', YSeq [YStr ''cidr'', YStr ''dev'', YStr ''gw'']),
                        (''type'', YStr ''object'')]),
                      (''type'', YStr ''array'')])]),
                  (''type'', YStr ''object'')]),
                (''status'', YMap [
                  (''properties'', YMap [
                    (''lastChangeTime'', YMap [
                      (''format'', YStr ''date-time''),
                      (''type'', YStr ''string'')]),
                    (''lastSyncTime'', YMap [
                      (''format'', YStr ''date-time''),
                      (''type'', YStr ''string'')])]),
                  (''type'', YStr ''object'')])]),
              (''required'', YSeq [YStr ''spec'']),
              (''type'', YStr ''object'')])]),
          (''served'', YBool True),
          (''storage'', YBool True),
          (''subresources'', YMap [
            (''status'', YMap [])])]])])]"

definition NodeConfig_schema :: "yaml option" where
  "NodeConfig_schema = openAPIV3Schema ClusterlinkNodeConfig"

definition NodeConfig_spec :: "yaml option" where
  "NodeConfig_spec = NodeConfig_schema \<bind> property ''spec''"

definition NodeConfig_status :: "yaml option" where
  "NodeConfig_status = NodeConfig_schema \<bind> property ''status''"

definition NodeConfig_entry :: "string \<Rightarrow> yaml option" where
  "NodeConfig_entry p = NodeConfig_spec \<bind> entry_schema p"

definition Cluster_spec :: "yaml option" where
  "Cluster_spec = openAPIV3Schema ClusterlinkCluster \<bind> property ''spec''"


text \<open>The names a schema node declares under \<open>properties\<close>, and those it lists under
  \<open>required\<close>, as sets.\<close>

definition declared_fields :: "yaml \<Rightarrow> string set" where
  "declared_fields s = set (property_names s)"

definition required_fields :: "yaml \<Rightarrow> string set" where
  "required_fields s = set (required_names s)"

definition enum_strings :: "yaml \<Rightarrow> string set option" where
  "enum_strings s = map_option (\<lambda>e. set (strs e)) (field ''enum'' s)"

section \<open>Go values and Kubernetes objects\<close>

subsection \<open>Go values\<close>

text \<open>
  A Go map is a reference that may be \<open>nil\<close>: \<open>None\<close> is the nil map, \<open>Some f\<close> a map
  with the entries of \<open>f\<close>. Reading a nil map is allowed and finds nothing. A panic is a
  value of type \<open>panic\<close>; a function that can panic returns \<open>panic + 'a\<close>.
\<close>

type_synonym 'v go_map = "(string \<rightharpoonup> 'v) option"

type_synonym bytes = "8 word list"

datatype panic = NilPointerDereference | CloseOfClosedChannel

text \<open>\<open>v, exist := m[k]\<close>: \<open>None\<close> when \<open>exist\<close> is false.\<close>

definition map_index :: "'v go_map \<Rightarrow> string \<Rightarrow> 'v option" where
  "map_index m k = (case m of None \<Rightarrow> None | Some f \<Rightarrow> f k)"

text \<open>\<open>m[k]\<close> for string values: the zero value \<open>""\<close> when the key is missing.\<close>

definition map_get :: "string go_map \<Rightarrow> string \<Rightarrow> string" where
  "map_get m k = (case map_index m k of None \<Rightarrow> [] | Some v \<Rightarrow> v)"

subsection \<open>The objects of k8s.io/api/core/v1 that the code reads and writes\<close>

text \<open>
  The struct types come from the imported package \<open>k8s.io/api/core/v1\<close>. The records
  list the fields the functions of this repository touch, together with the identifying
  metadata. For the objects that are written (\<open>ConfigMap\<close>, \<open>Secret\<close>) and for
  \<open>Node\<close> and \<open>Pod\<close>, every further field of the Go struct (\<open>TypeMeta\<close>, owner
  references, \<open>Status\<close>, ...) is the extension part of the record, so a statement
  about a record scheme holds whatever those fields contain. Fields promoted from an
  embedded struct (\<open>old.Labels\<close>, \<open>v.ConfigMap.Name\<close>) are written with their full
  path. A pointer field is an \<open>option\<close>: the volume sources of a \<open>Volume\<close>, and
  \<open>SecretRef\<close> of the CephFS, Cinder and RBD sources, which core/v1 declares as
  \<open>*LocalObjectReference\<close> and marks optional. A slice may be nil as well; ranging
  over a nil slice runs no iteration.
\<close>

record ObjectMeta =
  Name :: string
  GenerateName :: string
  Namespace :: string
  UID :: string
  ResourceVersion :: string
  Generation :: int
  Labels :: "string go_map"
  Annotations :: "string go_map"
  Finalizers :: "string list"

record 'm Node =
  ObjectMeta :: "'m ObjectMeta_scheme"

record 'm ConfigMap =
  ObjectMeta :: "'m ObjectMeta_scheme"
  Immutable :: "bool option"
  Data :: "string go_map"
  BinaryData :: "bytes go_map"

record 'm Secret =
  ObjectMeta :: "'m ObjectMeta_scheme"
  Immutable :: "bool option"
  Data :: "bytes go_map"
  StringData :: "string go_map"
  Type :: string

type_synonym 'a go_slice = "'a list option"

definition elems :: "'a go_slice \<Rightarrow> 'a list" where
  "elems s = (case s of None \<Rightarrow> [] | Some xs \<Rightarrow> xs)"

record LocalObjectReference =
  Name :: string

record SecretVolumeSource =
  SecretName :: string

record ConfigMapVolumeSource =
  LocalObjectReference :: LocalObjectReference

record PersistentVolumeClaimVolumeSource =
  ClaimName :: string
  ReadOnly :: bool

record CephFSVolumeSource =
  SecretRef :: "LocalObjectReference option"

record CinderVolumeSource =
  SecretRef :: "LocalObjectReference option"

record RBDVolumeSource =
  SecretRef :: "LocalObjectReference option"

record Volume =
  Name :: string
  Secret :: "SecretVolumeSource option"
  ConfigMap :: "ConfigMapVolumeSource option"
  PersistentVolumeClaim :: "PersistentVolumeClaimVolumeSource option"
  CephFS :: "CephFSVolumeSource option"
  Cinder :: "CinderVolumeSource option"
  RBD :: "RBDVolumeSource option"

record PodSpec =
  Volumes :: "Volume go_slice"
  ImagePullSecrets :: "LocalObjectReference go_slice"

record 'm Pod =
  ObjectMeta :: "'m ObjectMeta_scheme"
  Spec :: PodSpec

section \<open>Package utils\<close>

subsection \<open>Label names\<close>

definition KosmosPodLabel :: string where "KosmosPodLabel = ''kosmos-pod''"
definition KosmosKubeletLabel :: string where "KosmosKubeletLabel = ''kosmos-kubelet''"
definition ClusterID :: string where "ClusterID = ''clusterID''"
definition NodeType :: string where "NodeType = ''type''"

subsection \<open>CreateMergePatch\<close>

text \<open>
  \<open>CreateMergePatch\<close> marshals both arguments with \<open>encoding/json\<close> and hands the two
  byte strings to \<open>CreateMergePatch\<close> of \<open>github.com/evanphx/json-patch\<close>. Neither
  library is part of this repository; they are the parameters \<open>marshal\<close> and
  \<open>jsonpatch\<close>. An error of either is returned as it is.
\<close>

definition CreateMergePatch ::
    "('v \<Rightarrow> 'e + bytes) \<Rightarrow> (bytes \<Rightarrow> bytes \<Rightarrow> 'e + bytes) \<Rightarrow> 'v \<Rightarrow> 'v \<Rightarrow> 'e + bytes" where
  "CreateMergePatch marshal jsonpatch original new =
     (case marshal original of
        Inl err \<Rightarrow> Inl err
      | Inr pvByte \<Rightarrow>
          (case marshal new of
             Inl err \<Rightarrow> Inl err
           | Inr cloneByte \<Rightarrow>
               (case jsonpatch pvByte cloneByte of
                  Inl err \<Rightarrow> Inl err
                | Inr patch \<Rightarrow> Inr patch)))"

subsection \<open>SetupSignalHandler\<close>

text \<open>
  The process state that \<open>SetupSignalHandler\<close> and its goroutine work on. The package
  variables are \<open>onlyOneSignalHandler\<close> (a channel that is only ever closed) and
  \<open>shutdownHandler\<close> (nil until the first call, then a channel with a buffer of two
  signals; \<open>Some q\<close> holds the buffered signals, oldest first). \<open>notify\<close> is the list of
  signals that \<open>signal.Notify\<close> relays into \<open>shutdownHandler\<close>. Every call that gets
  past its first statement makes one \<open>stop\<close> channel and starts one goroutine; the pair is
  a \<open>handler\<close>, and \<open>pos\<close> is the statement the goroutine executes next:
  \<open>AwaitFirst\<close> the first \<open><-shutdownHandler\<close>, \<open>CloseStop\<close> the \<open>close(stop)\<close>,
  \<open>AwaitSecond\<close> the second receive, \<open>Exit\<close> the \<open>os.Exit(1)\<close>.
\<close>

datatype os_signal = SIGINT | SIGTERM | SIGHUP

definition shutdownSignals :: "os_signal list" where
  "shutdownSignals = [SIGINT, SIGTERM]"

datatype chan_state = Open | Closed

definition close_chan :: "chan_state \<Rightarrow> panic + chan_state" where
  "close_chan c = (case c of Open \<Rightarrow> Inr Closed | Closed \<Rightarrow> Inl CloseOfClosedChannel)"

datatype pc = AwaitFirst | CloseStop | AwaitSecond | Exit

record handler =
  stop :: chan_state
  pos :: pc

datatype status = Running | Exited int | Killed os_signal | Crashed panic

record process =
  onlyOneSignalHandler :: chan_state
  shutdownHandler :: "os_signal list option"
  notify :: "os_signal list"
  handlers :: "handler list"
  status :: status

definition init :: process where
  "init = \<lparr>onlyOneSignalHandler = Open, shutdownHandler = None, notify = [],
            handlers = [], status = Running\<rparr>"

text \<open>
  A call returns the index of the \<open>stop\<close> channel it made, and the new state. Only one
  caller can get past \<open>close(onlyOneSignalHandler)\<close>, and the statements after it are
  taken as one step: the only event that can fall between them is a signal that
  \<open>signal.Notify\<close> does not relay yet, which ends the process as it does before the call.
\<close>

definition SetupSignalHandler :: "process \<Rightarrow> panic + (nat \<times> process)" where
  "SetupSignalHandler p =
     (case close_chan (onlyOneSignalHandler p) of
        Inl e \<Rightarrow> Inl e
      | Inr c \<Rightarrow>
          Inr (length (handlers p),
               p\<lparr>onlyOneSignalHandler := c,
                 shutdownHandler := Some [],
                 notify := shutdownSignals,
                 handlers := handlers p @ [\<lparr>stop = Open, pos = AwaitFirst\<rparr>]\<rparr>))"

text \<open>
  The operating system delivers a signal. A signal registered with \<open>signal.Notify\<close> is
  put into the channel when the buffer has room and dropped otherwise (the runtime never
  blocks on the channel); a signal that is not registered ends the process, which is what
  the Go runtime does with these three signals by default.
\<close>

definition deliver :: "os_signal \<Rightarrow> process \<Rightarrow> process" where
  "deliver s p =
     (if s \<in> set (notify p) then
        (case shutdownHandler p of
           None \<Rightarrow> p
         | Some q \<Rightarrow> if length q < 2 then p\<lparr>shutdownHandler := Some (q @ [s])\<rparr> else p)
      else p\<lparr>status := Killed s\<rparr>)"

text \<open>
  One statement of the goroutine of handler \<open>i\<close>. A receive on an empty (or nil) channel
  blocks: the state stays as it is. A panic in the goroutine ends the process.
\<close>

definition receive :: "nat \<Rightarrow> pc \<Rightarrow> process \<Rightarrow> process" where
  "receive i next p =
     (case shutdownHandler p of
        Some (s # q) \<Rightarrow>
          p\<lparr>shutdownHandler := Some q,
            handlers := (handlers p)[i := (handlers p ! i)\<lparr>pos := next\<rparr>]\<rparr>
      | _ \<Rightarrow> p)"

definition goroutine :: "nat \<Rightarrow> process \<Rightarrow> process" where
  "goroutine i p =
     (case pos (handlers p ! i) of
        AwaitFirst \<Rightarrow> receive i CloseStop p
      | CloseStop \<Rightarrow>
          (case close_chan (stop (handlers p ! i)) of
             Inl e \<Rightarrow> p\<lparr>status := Crashed e\<rparr>
           | Inr c \<Rightarrow> p\<lparr>handlers := (handlers p)[i := \<lparr>stop = c, pos = AwaitSecond\<rparr>]\<rparr>)
      | AwaitSecond \<Rightarrow> receive i Exit p
      | Exit \<Rightarrow> p\<lparr>status := Exited 1\<rparr>)"

text \<open>
  The events of a run: some goroutine calls \<open>SetupSignalHandler\<close>, a signal arrives, or
  the goroutine of a handler executes its next statement. A call that panics unwinds its
  caller before any other statement of \<open>SetupSignalHandler\<close> runs; whether the caller
  recovers or the process dies, the state of the handlers is the one before the call, and
  the run goes on from it so that every later call is covered as well.
\<close>

datatype event = Call | Signal os_signal | Step nat

definition step :: "process \<Rightarrow> event \<Rightarrow> process" where
  "step p e =
     (if status p \<noteq> Running then p
      else case e of
        Call \<Rightarrow> (case SetupSignalHandler p of Inl _ \<Rightarrow> p | Inr (_, p') \<Rightarrow> p')
      | Signal s \<Rightarrow> deliver s p
      | Step i \<Rightarrow> if i < length (handlers p) then goroutine i p else p)"

fun run :: "process \<Rightarrow> event list \<Rightarrow> process" where
  "run p [] = p"
| "run p (e # es) = run (step p e) es"

text \<open>
  What a run shows from outside. \<open>returned\<close> lists, in order, the indices of the \<open>stop\<close>
  channels that the calls of the run returned (a call that panics returns nothing).
  \<open>closes\<close> counts how often a goroutine executed the statement \<open>close(stop)\<close>.
  \<open>quiet\<close> says that no SIGINT and no SIGTERM is delivered in the run.
\<close>

fun returned :: "process \<Rightarrow> event list \<Rightarrow> nat list" where
  "returned p [] = []"
| "returned p (e # es) =
     (if e = Call \<and> status p = Running
      then (case SetupSignalHandler p of Inl _ \<Rightarrow> [] | Inr (i, _) \<Rightarrow> [i])
      else [])
       @ returned (step p e) es"

definition closing :: "process \<Rightarrow> event \<Rightarrow> bool" where
  "closing p e =
     (status p = Running \<and>
      (case e of
         Step i \<Rightarrow> i < length (handlers p) \<and> pos (handlers p ! i) = CloseStop
       | _ \<Rightarrow> False))"

fun closes :: "process \<Rightarrow> event list \<Rightarrow> nat" where
  "closes p [] = 0"
| "closes p (e # es) = (if closing p e then 1 else 0) + closes (step p e) es"

definition quiet :: "event list \<Rightarrow> bool" where
  "quiet es = (Signal SIGINT \<notin> set es \<and> Signal SIGTERM \<notin> set es)"

text \<open>The facts that hold of every state a run reaches from \<open>init\<close>.\<close>

definition handled :: "process \<Rightarrow> bool" where
  "handled p =
     (length (handlers p) \<le> 1
      \<and> (onlyOneSignalHandler p = Closed) = (handlers p \<noteq> [])
      \<and> (handlers p = [] \<longrightarrow> shutdownHandler p = None \<and> notify p = [])
      \<and> (handlers p \<noteq> [] \<longrightarrow> shutdownHandler p \<noteq> None \<and> notify p = shutdownSignals)
      \<and> (\<forall>q. shutdownHandler p = Some q \<longrightarrow> set q \<subseteq> set shutdownSignals \<and> length q \<le> 2)
      \<and> (\<forall>h \<in> set (handlers p). (stop h = Closed) = (pos h = AwaitSecond \<or> pos h = Exit))
      \<and> (\<forall>e. status p \<noteq> Crashed e))"

subsection \<open>Node and pod labels\<close>

text \<open>
  A pointer argument that is only read is the optional object it points to: \<open>None\<close> is
  the nil pointer. Reading a field through a nil pointer panics.
\<close>

definition IsVirtualNode :: "('m, 'z) Node_scheme option \<Rightarrow> panic + bool" where
  "IsVirtualNode node =
     (case node of
        None \<Rightarrow> Inr False
      | Some n \<Rightarrow>
          (case map_index (Labels (Node.ObjectMeta n)) NodeType of
             None \<Rightarrow> Inr False
           | Some valStr \<Rightarrow> Inr (valStr = KosmosKubeletLabel)))"

definition GetClusterID :: "('m, 'z) Node_scheme option \<Rightarrow> panic + string" where
  "GetClusterID node =
     (case node of
        None \<Rightarrow> Inr []
      | Some n \<Rightarrow>
          (case map_index (Labels (Node.ObjectMeta n)) ClusterID of
             None \<Rightarrow> Inr []
           | Some clusterName \<Rightarrow> Inr clusterName))"

definition IsVirtualPod :: "('m, 'z) Pod_scheme option \<Rightarrow> panic + bool" where
  "IsVirtualPod pod =
     (case pod of
        None \<Rightarrow> Inl NilPointerDereference
      | Some p \<Rightarrow>
          Inr (Labels (Pod.ObjectMeta p) \<noteq> None
               \<and> map_get (Labels (Pod.ObjectMeta p)) KosmosPodLabel = ''true''))"

subsection \<open>UpdateConfigMap and UpdateSecret\<close>

text \<open>
  Both functions write through their first pointer, and the two pointers may be equal, so
  the objects live in a store: every address holds an object (a Go pointer that is not
  nil points to one), and a pointer is \<open>None\<close> (nil) or \<open>Some a\<close>. Each Go assignment \<open>old.F = new.F\<close> reads \<open>new\<close> and then writes the
  field of \<open>old\<close>; either dereference panics on nil, before anything is written.
\<close>

type_synonym addr = nat

definition load :: "(addr \<Rightarrow> 'a) \<Rightarrow> addr option \<Rightarrow> panic + 'a" where
  "load h p = (case p of None \<Rightarrow> Inl NilPointerDereference | Some a \<Rightarrow> Inr (h a))"

definition modify :: "(addr \<Rightarrow> 'a) \<Rightarrow> addr option \<Rightarrow> ('a \<Rightarrow> 'a) \<Rightarrow> panic + (addr \<Rightarrow> 'a)" where
  "modify h p f =
     (case p of None \<Rightarrow> Inl NilPointerDereference | Some a \<Rightarrow> Inr (h(a := f (h a))))"

definition assign ::
    "(addr \<Rightarrow> 'a) \<Rightarrow> addr option \<Rightarrow> addr option \<Rightarrow> ('a \<Rightarrow> 'a \<Rightarrow> 'a) \<Rightarrow> panic + (addr \<Rightarrow> 'a)" where
  "assign h old new set_from =
     (case load h new of
        Inl e \<Rightarrow> Inl e
      | Inr n \<Rightarrow> modify h old (set_from n))"

definition then_do :: "panic + 'a \<Rightarrow> ('a \<Rightarrow> panic + 'b) \<Rightarrow> panic + 'b" where
  "then_do r f = (case r of Inl e \<Rightarrow> Inl e | Inr x \<Rightarrow> f x)"

definition UpdateConfigMap ::
    "(addr \<Rightarrow> ('m, 'z) ConfigMap_scheme) \<Rightarrow> addr option \<Rightarrow> addr option
       \<Rightarrow> panic + (addr \<Rightarrow> ('m, 'z) ConfigMap_scheme)" where
  "UpdateConfigMap h old new =
     then_do (assign h old new
        (\<lambda>src dst. dst\<lparr>ConfigMap.ObjectMeta :=
                   (ConfigMap.ObjectMeta dst)\<lparr>Labels := Labels (ConfigMap.ObjectMeta src)\<rparr>\<rparr>))
     (\<lambda>h1. then_do (assign h1 old new (\<lambda>src dst. dst\<lparr>ConfigMap.Data := ConfigMap.Data src\<rparr>))
     (\<lambda>h2. assign h2 old new (\<lambda>src dst. dst\<lparr>BinaryData := BinaryData src\<rparr>)))"

definition UpdateSecret ::
    "(addr \<Rightarrow> ('m, 'z) Secret_scheme) \<Rightarrow> addr option \<Rightarrow> addr option
       \<Rightarrow> panic + (addr \<Rightarrow> ('m, 'z) Secret_scheme)" where
  "UpdateSecret h old new =
     then_do (assign h old new
        (\<lambda>src dst. dst\<lparr>Secret.ObjectMeta :=
                   (Secret.ObjectMeta dst)\<lparr>Labels := Labels (Secret.ObjectMeta src)\<rparr>\<rparr>))
     (\<lambda>h1. then_do (assign h1 old new (\<lambda>src dst. dst\<lparr>Secret.Data := Secret.Data src\<rparr>))
     (\<lambda>h2. then_do (assign h2 old new (\<lambda>src dst. dst\<lparr>StringData := StringData src\<rparr>))
     (\<lambda>h3. assign h3 old new (\<lambda>src dst. dst\<lparr>Type := Type src\<rparr>))))"

text \<open>An object with the fields blanked that the update may write: what is left is the
  part of the object that the update has to keep.\<close>

definition ConfigMap_rest :: "('m, 'z) ConfigMap_scheme \<Rightarrow> ('m, 'z) ConfigMap_scheme" where
  "ConfigMap_rest c =
     c\<lparr>ConfigMap.ObjectMeta := (ConfigMap.ObjectMeta c)\<lparr>Labels := None\<rparr>,
       ConfigMap.Data := None, BinaryData := None\<rparr>"

definition Secret_rest :: "('m, 'z) Secret_scheme \<Rightarrow> ('m, 'z) Secret_scheme" where
  "Secret_rest s =
     s\<lparr>Secret.ObjectMeta := (Secret.ObjectMeta s)\<lparr>Labels := None\<rparr>,
       Secret.Data := None, StringData := None, Type := []\<rparr>"

section \<open>Package k8sadapter: the resources a pod depends on\<close>

text \<open>\<open>strings.HasPrefix s prefix\<close>.\<close>

definition HasPrefix :: "string \<Rightarrow> string \<Rightarrow> bool" where
  "HasPrefix s prefix = (length prefix \<le> length s \<and> take (length prefix) s = prefix)"

text \<open>
  The \<open>range\<close> statements over \<open>pod.Spec.Volumes\<close>, with the slice built so far as
  accumulator. The
  \<open>switch\<close> of \<open>getSecrets\<close> takes the first case whose source is set. Reading
  \<open>SecretRef.Name\<close> dereferences \<open>SecretRef\<close>. The \<open>klog\<close> calls only print; their
  arguments are values the next statement reads again.
\<close>

fun getSecrets_volumes :: "string list \<Rightarrow> Volume list \<Rightarrow> panic + string list" where
  "getSecrets_volumes secretNames [] = Inr secretNames"
| "getSecrets_volumes secretNames (v # vs) =
     (case Secret v of
        Some s \<Rightarrow>
          if HasPrefix (Volume.Name v) ''default-token''
          then getSecrets_volumes secretNames vs
          else getSecrets_volumes (secretNames @ [SecretName s]) vs
      | None \<Rightarrow>
     (case CephFS v of
        Some c \<Rightarrow>
          (case CephFSVolumeSource.SecretRef c of
             None \<Rightarrow> Inl NilPointerDereference
           | Some r \<Rightarrow> getSecrets_volumes (secretNames @ [LocalObjectReference.Name r]) vs)
      | None \<Rightarrow>
     (case Cinder v of
        Some c \<Rightarrow>
          (case CinderVolumeSource.SecretRef c of
             None \<Rightarrow> Inl NilPointerDereference
           | Some r \<Rightarrow> getSecrets_volumes (secretNames @ [LocalObjectReference.Name r]) vs)
      | None \<Rightarrow>
     (case RBD v of
        Some c \<Rightarrow>
          (case RBDVolumeSource.SecretRef c of
             None \<Rightarrow> Inl NilPointerDereference
           | Some r \<Rightarrow> getSecrets_volumes (secretNames @ [LocalObjectReference.Name r]) vs)
      | None \<Rightarrow> getSecrets_volumes secretNames vs))))"

fun getSecrets_pull :: "string list \<Rightarrow> LocalObjectReference list \<Rightarrow> string list" where
  "getSecrets_pull secretNames [] = secretNames"
| "getSecrets_pull secretNames (s # ss) =
     getSecrets_pull (secretNames @ [LocalObjectReference.Name s]) ss"

definition getSecrets :: "('m, 'z) Pod_scheme option \<Rightarrow> panic + string list" where
  "getSecrets pod =
     (case pod of
        None \<Rightarrow> Inl NilPointerDereference
      | Some p \<Rightarrow>
          (case getSecrets_volumes [] (elems (Volumes (Spec p))) of
             Inl e \<Rightarrow> Inl e
           | Inr secretNames \<Rightarrow>
               (case ImagePullSecrets (Spec p) of
                  None \<Rightarrow> Inr secretNames
                | Some ss \<Rightarrow> Inr (getSecrets_pull secretNames ss))))"

fun getConfigmaps_volumes :: "string list \<Rightarrow> Volume list \<Rightarrow> string list" where
  "getConfigmaps_volumes cmNames [] = cmNames"
| "getConfigmaps_volumes cmNames (v # vs) =
     (case ConfigMap v of
        None \<Rightarrow> getConfigmaps_volumes cmNames vs
      | Some c \<Rightarrow>
          getConfigmaps_volumes
            (cmNames @ [LocalObjectReference.Name (ConfigMapVolumeSource.LocalObjectReference c)]) vs)"

definition getConfigmaps :: "('m, 'z) Pod_scheme option \<Rightarrow> panic + string list" where
  "getConfigmaps pod =
     (case pod of
        None \<Rightarrow> Inl NilPointerDereference
      | Some p \<Rightarrow> Inr (getConfigmaps_volumes [] (elems (Volumes (Spec p)))))"

fun getPVCs_volumes :: "string list \<Rightarrow> Volume list \<Rightarrow> string list" where
  "getPVCs_volumes cmNames [] = cmNames"
| "getPVCs_volumes cmNames (v # vs) =
     (case PersistentVolumeClaim v of
        None \<Rightarrow> getPVCs_volumes cmNames vs
      | Some c \<Rightarrow> getPVCs_volumes (cmNames @ [ClaimName c]) vs)"

definition getPVCs :: "('m, 'z) Pod_scheme option \<Rightarrow> panic + string list" where
  "getPVCs pod =
     (case pod of
        None \<Rightarrow> Inl NilPointerDereference
      | Some p \<Rightarrow> Inr (getPVCs_volumes [] (elems (Volumes (Spec p)))))"

text \<open>
  What each kind of volume contributes, one kind at a time. A volume is of the kind of
  the first source that is set, in the order of the \<open>switch\<close>; a CephFS, Cinder or RBD
  volume without a \<open>SecretRef\<close> refers to no secret.
\<close>

datatype kind = SecretKind | CephFSKind | CinderKind | RBDKind | OtherKind

definition kind_of :: "Volume \<Rightarrow> kind" where
  "kind_of v =
     (if Secret v \<noteq> None then SecretKind
      else if CephFS v \<noteq> None then CephFSKind
      else if Cinder v \<noteq> None then CinderKind
      else if RBD v \<noteq> None then RBDKind
      else OtherKind)"

definition secret_ref :: "Volume \<Rightarrow> LocalObjectReference option" where
  "secret_ref v =
     (case kind_of v of
        CephFSKind \<Rightarrow> Option.bind (CephFS v) CephFSVolumeSource.SecretRef
      | CinderKind \<Rightarrow> Option.bind (Cinder v) CinderVolumeSource.SecretRef
      | RBDKind \<Rightarrow> Option.bind (RBD v) RBDVolumeSource.SecretRef
      | _ \<Rightarrow> None)"

definition secret_names :: "Volume \<Rightarrow> string list" where
  "secret_names v =
     (case kind_of v of
        SecretKind \<Rightarrow>
          (if HasPrefix (Volume.Name v) ''default-token'' then []
           else map SecretName (case Secret v of None \<Rightarrow> [] | Some s \<Rightarrow> [s]))
      | OtherKind \<Rightarrow> []
      | _ \<Rightarrow> (case secret_ref v of None \<Rightarrow> [] | Some r \<Rightarrow> [LocalObjectReference.Name r]))"

text \<open>The CephFS, Cinder and RBD volumes whose \<open>SecretRef\<close> is nil.\<close>

definition missing_ref :: "Volume \<Rightarrow> bool" where
  "missing_ref v = (kind_of v \<in> {CephFSKind, CinderKind, RBDKind} \<and> secret_ref v = None)"

section \<open>Sample objects\<close>

definition sample_meta :: "string \<Rightarrow> string go_map \<Rightarrow> ObjectMeta" where
  "sample_meta name labels =
     \<lparr>ObjectMeta.Name = name, GenerateName = [], Namespace = ''default'', UID = [],
      ResourceVersion = ''1'', Generation = 1, Labels = labels,
      Annotations = Some [''owner'' \<mapsto> ''kosmos''], Finalizers = []\<rparr>"

definition sample_node :: "string go_map \<Rightarrow> unit Node" where
  "sample_node labels = \<lparr>Node.ObjectMeta = sample_meta ''node-1'' labels\<rparr>"

definition sample_volume :: "string \<Rightarrow> Volume" where
  "sample_volume name =
     \<lparr>Volume.Name = name, Secret = None, ConfigMap = None, PersistentVolumeClaim = None,
      CephFS = None, Cinder = None, RBD = None\<rparr>"

definition sample_pod :: "Volume list \<Rightarrow> unit Pod" where
  "sample_pod vs =
     \<lparr>Pod.ObjectMeta = sample_meta ''pod-1'' None,
      Spec = \<lparr>Volumes = Some vs, ImagePullSecrets = None\<rparr>\<rparr>"

definition sample_configMap :: "string \<Rightarrow> string go_map \<Rightarrow> string go_map \<Rightarrow> unit ConfigMap" where
  "sample_configMap name labels data =
     \<lparr>ConfigMap.ObjectMeta = sample_meta name labels, Immutable = None, Data = data,
      BinaryData = None\<rparr>"

definition sample_secret :: "string \<Rightarrow> string go_map \<Rightarrow> string \<Rightarrow> unit Secret" where
  "sample_secret name labels type =
     \<lparr>Secret.ObjectMeta = sample_meta name labels, Immutable = None, Data = None,
      StringData = Some [''token'' \<mapsto> name], Type = type\<rparr>"

definition sample_configMaps :: "addr \<Rightarrow> unit ConfigMap" where
  "sample_configMaps a =
     (if a = 0 then sample_configMap ''settings'' (Some [''app'' \<mapsto> ''v1'']) (Some [''k'' \<mapsto> ''1''])
      else if a = 1 then sample_configMap ''settings-new'' (Some [''app'' \<mapsto> ''v2'']) None
      else sample_configMap ''other'' None None)"

definition sample_secrets :: "addr \<Rightarrow> unit Secret" where
  "sample_secrets a =
     (if a = 0 then sample_secret ''token'' (Some [''app'' \<mapsto> ''v1'']) ''Opaque''
      else if a = 1 then sample_secret ''token-new'' None ''kubernetes.io/tls''
      else sample_secret ''other'' None ''Opaque'')"

section \<open>The data contracts of the manifests\<close>

lemmas schema_defs =
  openAPIV3Schema_def property_def property_names_def required_names_def entry_schema_def
  declared_fields_def required_fields_def enum_strings_def List.map_filter_simps

text \<open>
  C1. The \<open>spec\<close> of a NodeConfig declares exactly the five entry lists \<open>devices\<close>,
  \<open>routes\<close>, \<open>fdbs\<close>, \<open>arps\<close> and \<open>iptables\<close>. Each of them is an array, and for
  the entries of each the declared fields are exactly the required ones: \<open>id\<close>,
  \<open>name\<close>, \<open>mac\<close>, \<open>bindDev\<close>, \<open>addr\<close>, \<open>port\<close>, \<open>type\<close> for a device; \<open>cidr\<close>,
  \<open>dev\<close>, \<open>gw\<close> for a route; \<open>dev\<close>, \<open>ip\<close>, \<open>mac\<close> for an FDB entry and for an ARP
  entry; \<open>table\<close>, \<open>chain\<close>, \<open>rule\<close> for an iptables rule.
\<close>

theorem NodeConfig_spec_contract:
  "map_option declared_fields NodeConfig_spec
     = Some {''devices'', ''routes'', ''fdbs'', ''arps'', ''iptables''}
   \<and> map_option (\<lambda>s. (declared_fields s, required_fields s)) (NodeConfig_entry ''devices'')
     = Some ({''id'', ''name'', ''mac'', ''bindDev'', ''addr'', ''port'', ''type''},
             {''id'', ''name'', ''mac'', ''bindDev'', ''addr'', ''port'', ''type''})
   \<and> map_option (\<lambda>s. (declared_fields s, required_fields s)) (NodeConfig_entry ''routes'')
     = Some ({''cidr'', ''dev'', ''gw''}, {''cidr'', ''dev'', ''gw''})
   \<and> map_option (\<lambda>s. (declared_fields s, required_fields s)) (NodeConfig_entry ''fdbs'')
     = Some ({''dev'', ''ip'', ''mac''}, {''dev'', ''ip'', ''mac''})
   \<and> map_option (\<lambda>s. (declared_fields s, required_fields s)) (NodeConfig_entry ''arps'')
     = Some ({''dev'', ''ip'', ''mac''}, {''dev'', ''ip'', ''mac''})
   \<and> map_option (\<lambda>s. (declared_fields s, required_fields s)) (NodeConfig_entry ''iptables'')
     = Some ({''table'', ''chain'', ''rule''}, {''table'', ''chain'', ''rule''})"
proof -
  have spec: "map_option declared_fields NodeConfig_spec
     = Some {''devices'', ''routes'', ''fdbs'', ''arps'', ''iptables''}"
    by (auto simp add: NodeConfig_spec_def NodeConfig_schema_def ClusterlinkNodeConfig_def
        schema_defs)
  have devices: "map_option (\<lambda>s. (declared_fields s, required_fields s))
       (NodeConfig_entry ''devices'')
     = Some ({''id'', ''name'', ''mac'', ''bindDev'', ''addr'', ''port'', ''type''},
             {''id'', ''name'', ''mac'', ''bindDev'', ''addr'', ''port'', ''type''})"
    by (auto simp add: NodeConfig_entry_def NodeConfig_spec_def NodeConfig_schema_def
        ClusterlinkNodeConfig_def schema_defs)
  have routes: "map_option (\<lambda>s. (declared_fields s, required_fields s))
       (NodeConfig_entry ''routes'')
     = Some ({''cidr'', ''dev'', ''gw''}, {''cidr'', ''dev'', ''gw''})"
    by (auto simp add: NodeConfig_entry_def NodeConfig_spec_def NodeConfig_schema_def
        ClusterlinkNodeConfig_def schema_defs)
  have fdbs: "map_option (\<lambda>s. (declared_fields s, required_fields s))
       (NodeConfig_entry ''fdbs'')
     = Some ({''dev'', ''ip'', ''mac''}, {''dev'', ''ip'', ''mac''})"
    by (auto simp add: NodeConfig_entry_def NodeConfig_spec_def NodeConfig_schema_def
        ClusterlinkNodeConfig_def schema_defs)
  have arps: "map_option (\<lambda>s. (declared_fields s, required_fields s))
       (NodeConfig_entry ''arps'')
     = Some ({''dev'', ''ip'', ''mac''}, {''dev'', ''ip'', ''mac''})"
    by (auto simp add: NodeConfig_entry_def NodeConfig_spec_def NodeConfig_schema_def
        ClusterlinkNodeConfig_def schema_defs)
  have iptables: "map_option (\<lambda>s. (declared_fields s, required_fields s))
       (NodeConfig_entry ''iptables'')
     = Some ({''table'', ''chain'', ''rule''}, {''table'', ''chain'', ''rule''})"
    by (auto simp add: NodeConfig_entry_def NodeConfig_spec_def NodeConfig_schema_def
        ClusterlinkNodeConfig_def schema_defs)
  from spec devices routes fdbs arps iptables show ?thesis by blast
qed

text \<open>
  C2. In the \<open>spec\<close> of a Cluster, \<open>localCIDRs\<close> defaults to \<open>ip: 210.0.0.0/8\<close>,
  \<open>ip6: 9480::/16\<close> and \<open>bridgeCIDRs\<close> to \<open>ip: 220.0.0.0/8\<close>, \<open>ip6: 9470::/16\<close>.
  Both are objects whose declared fields are \<open>ip\<close> and \<open>ip6\<close>, both of them required.
\<close>

theorem Cluster_CIDRs_defaults:
  "map_option (\<lambda>s. (field ''default'' s, field ''type'' s, declared_fields s, required_fields s))
       (Cluster_spec \<bind> property ''localCIDRs'')
     = Some (Some (YMap [(''ip'', YStr ''210.0.0.0/8''), (''ip6'', YStr ''9480::/16'')]),
             Some (YStr ''object''), {''ip'', ''ip6''}, {''ip'', ''ip6''})
   \<and> map_option (\<lambda>s. (field ''default'' s, field ''type'' s, declared_fields s, required_fields s))
       (Cluster_spec \<bind> property ''bridgeCIDRs'')
     = Some (Some (YMap [(''ip'', YStr ''220.0.0.0/8''), (''ip6'', YStr ''9470::/16'')]),
             Some (YStr ''object''), {''ip'', ''ip6''}, {''ip'', ''ip6''})"
  by (auto simp add: Cluster_spec_def ClusterlinkCluster_def schema_defs)

text \<open>
  C3. \<open>networkType\<close> in the \<open>spec\<close> of a Cluster is a string whose \<open>enum\<close> holds exactly
  \<open>p2p\<close> and \<open>gateway\<close>, and whose default is \<open>p2p\<close>.
\<close>

theorem Cluster_networkType:
  "map_option (\<lambda>s. (field ''type'' s, enum_strings s, field ''default'' s))
       (Cluster_spec \<bind> property ''networkType'')
     = Some (Some (YStr ''string''), Some {''p2p'', ''gateway''}, Some (YStr ''p2p''))"
  by (simp add: Cluster_spec_def ClusterlinkCluster_def schema_defs)

text \<open>
  C4. The \<open>status\<close> of a NodeConfig declares exactly the two fields \<open>lastChangeTime\<close>
  and \<open>lastSyncTime\<close>, both strings of format \<open>date-time\<close>, and it admits no further
  field through \<open>additionalProperties\<close>: there is no field for a failure reason.
\<close>

theorem NodeConfig_status_fields:
  "map_option (\<lambda>s. (declared_fields s, field ''additionalProperties'' s)) NodeConfig_status
     = Some ({''lastChangeTime'', ''lastSyncTime''}, None)
   \<and> NodeConfig_status \<bind> property ''lastChangeTime''
     = Some (YMap [(''format'', YStr ''date-time''), (''type'', YStr ''string'')])
   \<and> NodeConfig_status \<bind> property ''lastSyncTime''
     = Some (YMap [(''format'', YStr ''date-time''), (''type'', YStr ''string'')])"
  by (auto simp add: NodeConfig_status_def NodeConfig_schema_def ClusterlinkNodeConfig_def
      schema_defs)

section \<open>Package utils: properties\<close>

subsection \<open>CreateMergePatch\<close>

text \<open>
  Called with the same value twice, \<open>CreateMergePatch\<close> hands the library the same byte
  string twice, or returns the error of the marshaller. What comes back is what the
  library makes of two equal documents.
\<close>

lemma CreateMergePatch_same_value:
  "CreateMergePatch marshal jsonpatch v v =
     (case marshal v of Inl err \<Rightarrow> Inl err | Inr pvByte \<Rightarrow> jsonpatch pvByte pvByte)"
  by (simp add: CreateMergePatch_def split: sum.split)

subsection \<open>SetupSignalHandler\<close>

lemma handled_init: "handled init"
  by (simp add: handled_def init_def)

lemma SetupSignalHandler_Open:
  "onlyOneSignalHandler p = Open \<Longrightarrow>
   SetupSignalHandler p =
     Inr (length (handlers p),
          p\<lparr>onlyOneSignalHandler := Closed, shutdownHandler := Some [],
            notify := shutdownSignals,
            handlers := handlers p @ [\<lparr>stop = Open, pos = AwaitFirst\<rparr>]\<rparr>)"
  by (simp add: SetupSignalHandler_def close_chan_def)

lemma SetupSignalHandler_Closed:
  "onlyOneSignalHandler p = Closed \<Longrightarrow> SetupSignalHandler p = Inl CloseOfClosedChannel"
  by (simp add: SetupSignalHandler_def close_chan_def)

lemma handled_Call:
  assumes "handled p"
  shows "handled (case SetupSignalHandler p of Inl _ \<Rightarrow> p | Inr (_, p') \<Rightarrow> p')"
proof (cases "onlyOneSignalHandler p")
  case Open
  with assms have "handlers p = []" by (simp add: handled_def)
  with Open assms show ?thesis
    by (simp add: SetupSignalHandler_Open handled_def)
next
  case Closed
  with assms show ?thesis by (simp add: SetupSignalHandler_Closed)
qed

lemma handled_deliver:
  assumes "handled p"
  shows "handled (deliver s p)"
  using assms
  by (auto simp add: deliver_def handled_def split: option.split)

lemma handled_receive:
  assumes "handled p" and "handlers p = [h]" and "pos h = AwaitFirst \<and> next = CloseStop \<or> pos h = AwaitSecond \<and> next = Exit"
  shows "handled (receive 0 next p)"
proof (cases "shutdownHandler p")
  case None
  with assms show ?thesis by (simp add: receive_def)
next
  case (Some q)
  show ?thesis
  proof (cases q)
    case Nil
    with Some assms show ?thesis by (simp add: receive_def)
  next
    case (Cons s q')
    with Some assms show ?thesis
      by (auto simp add: receive_def handled_def)
  qed
qed

lemma handled_goroutine:
  assumes "handled p" and "i < length (handlers p)"
  shows "handled (goroutine i p)"
proof -
  from assms obtain h where h: "handlers p = [h]" and i: "i = 0"
    by (cases "handlers p") (auto simp add: handled_def)
  show ?thesis
  proof (cases "pos h")
    case AwaitFirst
    with assms h i show ?thesis
      using handled_receive [of p h CloseStop] by (simp add: goroutine_def)
  next
    case CloseStop
    with assms h have "stop h = Open"
      by (cases "stop h") (auto simp add: handled_def)
    with CloseStop assms h i show ?thesis
      by (simp add: goroutine_def close_chan_def handled_def)
  next
    case AwaitSecond
    with assms h i show ?thesis
      using handled_receive [of p h Exit] by (simp add: goroutine_def)
  next
    case Exit
    with assms h i show ?thesis
      by (simp add: goroutine_def handled_def)
  qed
qed

lemma handled_step:
  assumes "handled p"
  shows "handled (step p e)"
proof (cases e)
  case Call
  with assms handled_Call [of p] show ?thesis by (simp add: step_def)
next
  case (Signal s)
  with assms handled_deliver [of p s] show ?thesis by (simp add: step_def)
next
  case (Step i)
  with assms handled_goroutine [of p i] show ?thesis by (simp add: step_def)
qed

lemma length_handlers_step:
  "length (handlers p) \<le> length (handlers (step p e))"
  by (cases e)
    (auto simp add: step_def SetupSignalHandler_def close_chan_def deliver_def goroutine_def
      receive_def split: sum.split option.split list.split pc.split chan_state.split)

lemma handled_run:
  "handled p \<Longrightarrow> handled (run p es)"
  by (induction es arbitrary: p) (simp_all add: handled_step)

lemma length_handlers_run:
  "length (handlers p) \<le> length (handlers (run p es))"
proof (induction es arbitrary: p)
  case Nil
  show ?case by simp
next
  case (Cons e es)
  from length_handlers_step [of p e] Cons [of "step p e"] show ?case by simp
qed

text \<open>A call that returns, returns the index of the handler it appends; nothing else
  changes the number of handlers.\<close>

lemma returned_step:
  "(if e = Call \<and> status p = Running
    then (case SetupSignalHandler p of Inl _ \<Rightarrow> [] | Inr (i, _) \<Rightarrow> [i])
    else [])
   = [length (handlers p)..<length (handlers (step p e))]"
  by (cases e)
    (auto simp add: step_def SetupSignalHandler_def close_chan_def deliver_def goroutine_def
      receive_def split: sum.split option.split list.split pc.split chan_state.split)

lemma returned_eq:
  "returned p es = [length (handlers p)..<length (handlers (run p es))]"
proof (induction es arbitrary: p)
  case Nil
  show ?case by simp
next
  case (Cons e es)
  have a: "length (handlers p) \<le> length (handlers (step p e))"
    by (rule length_handlers_step)
  have b: "length (handlers (step p e)) \<le> length (handlers (run (step p e) es))"
    by (rule length_handlers_run)
  have "returned p (e # es)
      = [length (handlers p)..<length (handlers (step p e))]
        @ [length (handlers (step p e))..<length (handlers (run (step p e) es))]"
    using returned_step [of e p] Cons [of "step p e"] by simp
  also have "\<dots> = [length (handlers p)..<length (handlers (run (step p e) es))]"
    using a b by (metis le_Suc_ex upt_add_eq_append)
  finally show ?case by simp
qed

text \<open>In a state that satisfies \<open>handled\<close>, \<open>close(stop)\<close> is executed on an open
  channel, so every execution adds one closed channel.\<close>

lemma closed_step:
  assumes "handled p"
  shows "length (filter (\<lambda>h. stop h = Closed) (handlers (step p e)))
       = length (filter (\<lambda>h. stop h = Closed) (handlers p)) + (if closing p e then 1 else 0)"
proof (cases "status p = Running")
  case False
  then show ?thesis by (simp add: step_def closing_def)
next
  case True
  show ?thesis
  proof (cases e)
    case Call
    with True show ?thesis
      by (cases "onlyOneSignalHandler p")
        (simp_all add: step_def closing_def SetupSignalHandler_Open SetupSignalHandler_Closed)
  next
    case (Signal s)
    with True show ?thesis
      by (simp add: step_def closing_def deliver_def split: option.split)
  next
    case (Step i)
    show ?thesis
    proof (cases "i < length (handlers p)")
      case False
      with True Step show ?thesis by (simp add: step_def closing_def)
    next
      case lt: True
      with assms obtain h where h: "handlers p = [h]" and i: "i = 0"
        by (cases "handlers p") (auto simp add: handled_def)
      from assms h have c: "(stop h = Closed) = (pos h = AwaitSecond \<or> pos h = Exit)"
        by (simp add: handled_def)
      show ?thesis
      proof (cases "pos h")
        case AwaitFirst
        with True Step h i c show ?thesis
          by (simp add: step_def closing_def goroutine_def receive_def
              split: option.split list.split)
      next
        case CloseStop
        with c have "stop h = Open" by (cases "stop h") simp_all
        with CloseStop True Step h i show ?thesis
          by (simp add: step_def closing_def goroutine_def close_chan_def)
      next
        case AwaitSecond
        with True Step h i c show ?thesis
          by (simp add: step_def closing_def goroutine_def receive_def
              split: option.split list.split)
      next
        case Exit
        with True Step h i c show ?thesis
          by (simp add: step_def closing_def goroutine_def)
      qed
    qed
  qed
qed

lemma closed_run:
  "handled p \<Longrightarrow>
   length (filter (\<lambda>h. stop h = Closed) (handlers (run p es)))
     = length (filter (\<lambda>h. stop h = Closed) (handlers p)) + closes p es"
proof (induction es arbitrary: p)
  case Nil
  show ?case by simp
next
  case (Cons e es)
  from Cons.prems have "handled (step p e)" by (rule handled_step)
  from Cons.IH [OF this] closed_step [OF Cons.prems, of e] show ?case by simp
qed

text \<open>While the goroutine waits for its first signal and nothing is buffered, an event
  other than the delivery of SIGINT or SIGTERM leaves it waiting.\<close>

lemma waiting_step:
  assumes "handled p"
    and "\<forall>h \<in> set (handlers p). pos h = AwaitFirst"
    and "shutdownHandler p = None \<or> shutdownHandler p = Some []"
    and "e \<noteq> Signal SIGINT" and "e \<noteq> Signal SIGTERM"
  shows "(\<forall>h \<in> set (handlers (step p e)). pos h = AwaitFirst)
       \<and> (shutdownHandler (step p e) = None \<or> shutdownHandler (step p e) = Some [])"
proof (cases "status p = Running")
  case False
  with assms show ?thesis by (simp add: step_def)
next
  case True
  show ?thesis
  proof (cases e)
    case Call
    with True assms show ?thesis
      by (cases "onlyOneSignalHandler p")
        (simp_all add: step_def SetupSignalHandler_Open SetupSignalHandler_Closed)
  next
    case (Signal s)
    with assms have s: "s = SIGHUP" by (cases s) simp_all
    from assms(1) have "notify p = [] \<or> notify p = shutdownSignals"
      by (auto simp add: handled_def)
    with s have "s \<notin> set (notify p)" by (auto simp add: shutdownSignals_def)
    with True Signal assms show ?thesis by (simp add: step_def deliver_def)
  next
    case (Step i)
    show ?thesis
    proof (cases "i < length (handlers p)")
      case False
      with True Step assms show ?thesis by (simp add: step_def)
    next
      case lt: True
      with assms have "pos (handlers p ! i) = AwaitFirst" by simp
      with True Step lt assms show ?thesis
        by (auto simp add: step_def goroutine_def receive_def)
    qed
  qed
qed

lemma waiting_run:
  assumes "handled p"
    and "\<forall>h \<in> set (handlers p). pos h = AwaitFirst"
    and "shutdownHandler p = None \<or> shutdownHandler p = Some []"
    and "quiet es"
  shows "\<forall>h \<in> set (handlers (run p es)). pos h = AwaitFirst"
  using assms
proof (induction es arbitrary: p)
  case Nil
  then show ?case by simp
next
  case (Cons e es)
  from Cons.prems(4) have e: "e \<noteq> Signal SIGINT" "e \<noteq> Signal SIGTERM" and q: "quiet es"
    by (auto simp add: quiet_def)
  from Cons.prems(1) have h: "handled (step p e)" by (rule handled_step)
  from waiting_step [OF Cons.prems(1,2,3) e] Cons.IH [OF h _ _ q]
  show ?case by simp
qed

lemma closes_on_signal:
  assumes "handled p" and "status p = Running" and "handlers p = [h]"
    and "pos h = AwaitFirst" and "s \<in> set shutdownSignals"
  shows "handlers (run p [Signal s, Step 0, Step 0]) = [\<lparr>stop = Closed, pos = AwaitSecond\<rparr>]"
    and "closes p [Signal s, Step 0, Step 0] = 1"
proof -
  from assms obtain q where q: "shutdownHandler p = Some q" and n: "notify p = shutdownSignals"
    by (auto simp add: handled_def)
  from assms have o: "stop h = Open"
    by (cases "stop h") (auto simp add: handled_def)
  have "\<exists>s' q'. shutdownHandler (deliver s p) = Some (s' # q')"
    using q n assms(5) by (cases q) (simp_all add: deliver_def)
  then obtain s' q' where d: "shutdownHandler (deliver s p) = Some (s' # q')"
    by blast
  have d': "handlers (deliver s p) = [h]" "status (deliver s p) = Running"
    using q n assms by (auto simp add: deliver_def)
  have 1: "step p (Signal s) = deliver s p"
    using assms by (simp add: step_def)
  have 2: "step (deliver s p) (Step 0) = receive 0 CloseStop (deliver s p)"
    using d' assms by (simp add: step_def goroutine_def)
  have 3: "handlers (receive 0 CloseStop (deliver s p)) = [h\<lparr>pos := CloseStop\<rparr>]"
    "status (receive 0 CloseStop (deliver s p)) = Running"
    using d d' by (simp_all add: receive_def)
  have 4: "handlers (step (receive 0 CloseStop (deliver s p)) (Step 0))
      = [\<lparr>stop = Closed, pos = AwaitSecond\<rparr>]"
    using 3 o by (simp add: step_def goroutine_def close_chan_def)
  show "handlers (run p [Signal s, Step 0, Step 0]) = [\<lparr>stop = Closed, pos = AwaitSecond\<rparr>]"
    by (simp add: 1 2 4)
  have 5: "\<not> closing p (Signal s)"
    by (simp add: closing_def)
  have 6: "\<not> closing (deliver s p) (Step 0)"
    using d' assms by (simp add: closing_def)
  have 7: "closing (receive 0 CloseStop (deliver s p)) (Step 0)"
    using 3 by (simp add: closing_def)
  show "closes p [Signal s, Step 0, Step 0] = 1"
    by (simp add: 1 2 5 6 7)
qed

lemma run_init_handlers:
  "handlers (run init es) = [] \<or> (\<exists>h. handlers (run init es) = [h])"
proof -
  have "handled (run init es)" using handled_init by (rule handled_run)
  then have "length (handlers (run init es)) \<le> 1" by (simp add: handled_def)
  then show ?thesis by (cases "handlers (run init es)") simp_all
qed

lemma returned_init:
  "returned init es = [0..<length (handlers (run init es))]"
  using returned_eq [of init es] by (simp add: init_def)

lemma returned_init_cases:
  "returned init es = [] \<and> handlers (run init es) = []
   \<or> returned init es = [0] \<and> (\<exists>h. handlers (run init es) = [h])"
  using run_init_handlers [of es] returned_init [of es] by auto

lemma closes_init:
  "closes init es = length (filter (\<lambda>h. stop h = Closed) (handlers (run init es)))"
  using closed_run [OF handled_init, of es] by (simp add: init_def)

text \<open>
  C7. In every run of the process from its start:
  \<^item> at most one call of \<open>SetupSignalHandler\<close> returns; the indices returned are exactly
    the indices of the \<open>stop\<close> channels that exist, so the channel a call returns is the
    one its goroutine works on; the first call of a run returns channel 0; and once a
    call has returned, every call panics (closing the closed \<open>onlyOneSignalHandler\<close>);
  \<^item> \<open>close(stop)\<close> is executed at most once, and the returned channel is closed exactly
    when it has been executed, which is when its goroutine is past that statement; no
    goroutine ever panics (\<open>close(stop)\<close> never meets a closed channel);
  \<^item> only SIGINT and SIGTERM reach the goroutine; as long as neither has been delivered,
    \<open>close(stop)\<close> has not been executed and the returned channel is open; and when one
    is delivered while the goroutine waits for its first signal, the goroutine's next
    two statements receive a signal and close the returned channel, this being the one
    execution of \<open>close(stop)\<close>.
\<close>

theorem SetupSignalHandler_exactly_once:
  "length (returned init es) \<le> 1
   \<and> returned init es = [0..<length (handlers (run init es))]
   \<and> returned init (Call # es) = [0]
   \<and> (returned init es \<noteq> [] \<longrightarrow> SetupSignalHandler (run init es) = Inl CloseOfClosedChannel)
   \<and> closes init es \<le> 1
   \<and> (returned init es = [] \<longrightarrow> closes init es = 0)
   \<and> (\<forall>i \<in> set (returned init es).
         (stop (handlers (run init es) ! i) = Closed) = (closes init es = 1)
         \<and> (stop (handlers (run init es) ! i) = Closed)
             = (pos (handlers (run init es) ! i) = AwaitSecond
                \<or> pos (handlers (run init es) ! i) = Exit))
   \<and> (\<forall>e. status (run init es) \<noteq> Crashed e)
   \<and> (\<forall>q. shutdownHandler (run init es) = Some q \<longrightarrow> set q \<subseteq> {SIGINT, SIGTERM})
   \<and> (quiet es \<longrightarrow>
         closes init es = 0
         \<and> (\<forall>i \<in> set (returned init es).
               stop (handlers (run init es) ! i) = Open
               \<and> pos (handlers (run init es) ! i) = AwaitFirst))
   \<and> (\<forall>s \<in> {SIGINT, SIGTERM}. \<forall>i \<in> set (returned init es).
         status (run init es) = Running \<and> pos (handlers (run init es) ! i) = AwaitFirst
         \<longrightarrow> stop (handlers (run (run init es) [Signal s, Step i, Step i]) ! i) = Closed
             \<and> closes (run init es) [Signal s, Step i, Step i] = 1)"
proof -
  have h: "handled (run init es)"
    using handled_init by (rule handled_run)
  note r = returned_init_cases [of es]
  have 1: "length (returned init es) \<le> 1"
    using r by auto
  have 2: "returned init es = [0..<length (handlers (run init es))]"
    by (rule returned_init)
  have 3: "returned init (Call # es) = [0]"
  proof -
    have "handlers (step init Call) \<noteq> []"
      by (simp add: step_def init_def SetupSignalHandler_def close_chan_def)
    with length_handlers_run [of "step init Call" es]
    have "handlers (run init (Call # es)) \<noteq> []" by auto
    with returned_init_cases [of "Call # es"] show ?thesis by auto
  qed
  have 4: "returned init es \<noteq> [] \<longrightarrow> SetupSignalHandler (run init es) = Inl CloseOfClosedChannel"
  proof
    assume "returned init es \<noteq> []"
    with r have "handlers (run init es) \<noteq> []" by auto
    with h have "onlyOneSignalHandler (run init es) = Closed" by (simp add: handled_def)
    then show "SetupSignalHandler (run init es) = Inl CloseOfClosedChannel"
      by (rule SetupSignalHandler_Closed)
  qed
  have 5: "closes init es \<le> 1"
    using r by (auto simp add: closes_init)
  have 6: "returned init es = [] \<longrightarrow> closes init es = 0"
    using r by (auto simp add: closes_init)
  have 7: "\<forall>i \<in> set (returned init es).
         (stop (handlers (run init es) ! i) = Closed) = (closes init es = 1)
         \<and> (stop (handlers (run init es) ! i) = Closed)
             = (pos (handlers (run init es) ! i) = AwaitSecond
                \<or> pos (handlers (run init es) ! i) = Exit)"
    using r h by (auto simp add: closes_init handled_def)
  have 8: "\<forall>e. status (run init es) \<noteq> Crashed e"
    using h by (simp add: handled_def)
  have 9: "\<forall>q. shutdownHandler (run init es) = Some q \<longrightarrow> set q \<subseteq> {SIGINT, SIGTERM}"
    using h by (simp add: handled_def shutdownSignals_def)
  have 10: "quiet es \<longrightarrow>
         closes init es = 0
         \<and> (\<forall>i \<in> set (returned init es).
               stop (handlers (run init es) ! i) = Open
               \<and> pos (handlers (run init es) ! i) = AwaitFirst)"
  proof
    assume "quiet es"
    with waiting_run [OF handled_init, of es]
    have w: "\<forall>h \<in> set (handlers (run init es)). pos h = AwaitFirst"
      by (simp add: init_def)
    with h have o: "\<forall>h \<in> set (handlers (run init es)). stop h = Open"
      by (metis chan_state.exhaust handled_def pc.distinct(3,5))
    from w o r show "closes init es = 0
         \<and> (\<forall>i \<in> set (returned init es).
               stop (handlers (run init es) ! i) = Open
               \<and> pos (handlers (run init es) ! i) = AwaitFirst)"
      by (auto simp add: closes_init)
  qed
  have 11: "\<forall>s \<in> {SIGINT, SIGTERM}. \<forall>i \<in> set (returned init es).
         status (run init es) = Running \<and> pos (handlers (run init es) ! i) = AwaitFirst
         \<longrightarrow> stop (handlers (run (run init es) [Signal s, Step i, Step i]) ! i) = Closed
             \<and> closes (run init es) [Signal s, Step i, Step i] = 1"
  proof (intro ballI impI)
    fix s i
    assume s: "s \<in> {SIGINT, SIGTERM}" and i: "i \<in> set (returned init es)"
      and a: "status (run init es) = Running \<and> pos (handlers (run init es) ! i) = AwaitFirst"
    from i r obtain h0 where i0: "i = 0" and h0: "handlers (run init es) = [h0]" by auto
    from s have s': "s \<in> set shutdownSignals" by (simp add: shutdownSignals_def)
    from a i0 h0 have "status (run init es) = Running" and "pos h0 = AwaitFirst" by simp_all
    from closes_on_signal [OF h this(1) h0 this(2) s'] i0
    show "stop (handlers (run (run init es) [Signal s, Step i, Step i]) ! i) = Closed
             \<and> closes (run init es) [Signal s, Step i, Step i] = 1"
      by simp
  qed
  from 1 2 3 4 5 6 7 8 9 10 11 show ?thesis by blast
qed

lemmas run_defs =
  init_def step_def SetupSignalHandler_def close_chan_def deliver_def goroutine_def
  receive_def shutdownSignals_def closing_def quiet_def

theorem SetupSignalHandler_exactly_once_witness:
  "returned init [Call, Call] = [0]
   \<and> SetupSignalHandler (run init [Call, Call]) = Inl CloseOfClosedChannel
   \<and> quiet [Call, Step 0, Step 0]
   \<and> returned init [Call, Step 0, Step 0] = [0]
   \<and> closes init [Call, Step 0, Step 0] = 0
   \<and> stop (handlers (run init [Call, Step 0, Step 0]) ! 0) = Open
   \<and> status (run init [Call]) = Running
   \<and> pos (handlers (run init [Call]) ! 0) = AwaitFirst
   \<and> stop (handlers (run (run init [Call]) [Signal SIGTERM, Step 0, Step 0]) ! 0) = Closed
   \<and> closes (run init [Call]) [Signal SIGTERM, Step 0, Step 0] = 1"
proof -
  have r2: "returned init [Call, Call] = [0]"
    and r3: "returned init [Call, Step 0, Step 0] = [0]"
    and r1: "returned init [Call] = [0]"
    by (simp_all add: run_defs)
  have q: "quiet [Call, Step 0, Step 0]"
    by (simp add: quiet_def)
  have s: "status (run init [Call]) = Running"
    and t: "pos (handlers (run init [Call]) ! 0) = AwaitFirst"
    by (simp_all add: run_defs)
  from r2 SetupSignalHandler_exactly_once [of "[Call, Call]"]
  have p: "SetupSignalHandler (run init [Call, Call]) = Inl CloseOfClosedChannel"
    by simp
  from SetupSignalHandler_exactly_once [of "[Call, Step 0, Step 0]"]
  have "quiet [Call, Step 0, Step 0] \<longrightarrow>
         closes init [Call, Step 0, Step 0] = 0
         \<and> (\<forall>i \<in> set (returned init [Call, Step 0, Step 0]).
               stop (handlers (run init [Call, Step 0, Step 0]) ! i) = Open
               \<and> pos (handlers (run init [Call, Step 0, Step 0]) ! i) = AwaitFirst)"
    by blast
  with q r3
  have o: "closes init [Call, Step 0, Step 0] = 0"
    "stop (handlers (run init [Call, Step 0, Step 0]) ! 0) = Open"
    by simp_all
  from SetupSignalHandler_exactly_once [of "[Call]"]
  have "\<forall>s \<in> {SIGINT, SIGTERM}. \<forall>i \<in> set (returned init [Call]).
         status (run init [Call]) = Running \<and> pos (handlers (run init [Call]) ! i) = AwaitFirst
         \<longrightarrow> stop (handlers (run (run init [Call]) [Signal s, Step i, Step i]) ! i) = Closed
             \<and> closes (run init [Call]) [Signal s, Step i, Step i] = 1"
    by blast
  then have "\<forall>i \<in> set (returned init [Call]).
         status (run init [Call]) = Running \<and> pos (handlers (run init [Call]) ! i) = AwaitFirst
         \<longrightarrow> stop (handlers (run (run init [Call]) [Signal SIGTERM, Step i, Step i]) ! i) = Closed
             \<and> closes (run init [Call]) [Signal SIGTERM, Step i, Step i] = 1"
    by blast
  with r1 s t
  have c: "stop (handlers (run (run init [Call]) [Signal SIGTERM, Step 0, Step 0]) ! 0) = Closed"
    "closes (run init [Call]) [Signal SIGTERM, Step 0, Step 0] = 1"
    by simp_all
  from r2 p q r3 o s t c show ?thesis by blast
qed

subsection \<open>Node and pod labels\<close>

text \<open>
  C9. \<open>IsVirtualNode\<close> returns false for the nil pointer, for a node without the
  \<open>type\<close> label, and for a node whose \<open>type\<close> label is not \<open>kosmos-kubelet\<close>;
  \<open>GetClusterID\<close> returns the empty string for the nil pointer and for a node without
  the \<open>clusterID\<close> label; and both return a value, never a panic, whatever the argument.
\<close>

theorem node_helpers_total:
  fixes n n' n'' :: "('m, 'z) Node_scheme" and node :: "('m, 'z) Node_scheme option"
  shows
  "IsVirtualNode (None :: ('m, 'z) Node_scheme option) = Inr False
   \<and> (map_index (Labels (Node.ObjectMeta n)) NodeType = None
        \<longrightarrow> IsVirtualNode (Some n) = Inr False)
   \<and> (map_index (Labels (Node.ObjectMeta n')) NodeType = Some v \<and> v \<noteq> KosmosKubeletLabel
        \<longrightarrow> IsVirtualNode (Some n') = Inr False)
   \<and> GetClusterID (None :: ('m, 'z) Node_scheme option) = Inr []
   \<and> (map_index (Labels (Node.ObjectMeta n'')) ClusterID = None
        \<longrightarrow> GetClusterID (Some n'') = Inr [])
   \<and> (\<exists>b. IsVirtualNode node = Inr b)
   \<and> (\<exists>s. GetClusterID node = Inr s)"
  by (auto simp add: IsVirtualNode_def GetClusterID_def split: option.split)

theorem node_helpers_total_witness:
  "map_index (Labels (Node.ObjectMeta (sample_node None))) NodeType = None
   \<and> IsVirtualNode (Some (sample_node None)) = Inr False
   \<and> map_index (Labels (Node.ObjectMeta (sample_node (Some [''type'' \<mapsto> ''worker''])))) NodeType
        = Some ''worker''
   \<and> ''worker'' \<noteq> KosmosKubeletLabel
   \<and> IsVirtualNode (Some (sample_node (Some [''type'' \<mapsto> ''worker'']))) = Inr False
   \<and> map_index (Labels (Node.ObjectMeta (sample_node (Some [''type'' \<mapsto> ''worker''])))) ClusterID = None
   \<and> GetClusterID (Some (sample_node (Some [''type'' \<mapsto> ''worker'']))) = Inr []"
proof -
  have a: "map_index (Labels (Node.ObjectMeta (sample_node None))) NodeType = None"
    by (simp add: sample_node_def sample_meta_def map_index_def)
  have b: "map_index (Labels (Node.ObjectMeta (sample_node (Some [''type'' \<mapsto> ''worker''])))) NodeType
        = Some ''worker'' \<and> ''worker'' \<noteq> KosmosKubeletLabel"
    by (simp add: sample_node_def sample_meta_def map_index_def NodeType_def KosmosKubeletLabel_def)
  have c: "map_index (Labels (Node.ObjectMeta (sample_node (Some [''type'' \<mapsto> ''worker''])))) ClusterID = None"
    by (simp add: sample_node_def sample_meta_def map_index_def ClusterID_def)
  from a b c
    node_helpers_total [of "sample_node None" "sample_node (Some [''type'' \<mapsto> ''worker''])" "''worker''"
      "sample_node (Some [''type'' \<mapsto> ''worker''])" "Some (sample_node None)"]
  show ?thesis by blast
qed

text \<open>The same for all arguments at once, and, for contrast, a function of this package
  that does read through a nil pointer.\<close>

lemma IsVirtualNode_iff:
  "IsVirtualNode node = Inr (\<exists>n. node = Some n \<and> map_index (Labels (Node.ObjectMeta n)) NodeType = Some KosmosKubeletLabel)"
  by (auto simp add: IsVirtualNode_def split: option.split)

lemma IsVirtualPod_nil: "IsVirtualPod None = Inl NilPointerDereference"
  by (simp add: IsVirtualPod_def)

subsection \<open>UpdateConfigMap and UpdateSecret\<close>

text \<open>
  C10. With both pointers set, \<open>UpdateConfigMap\<close> returns, and in the store it leaves
  the destination has the \<open>Labels\<close>, \<open>Data\<close> and \<open>BinaryData\<close> of the source and is
  otherwise what it was (name, namespace, annotations and every other field, the
  extension included); the source and every other object are what they were. The same
  holds of \<open>UpdateSecret\<close> with \<open>Labels\<close>, \<open>Data\<close>, \<open>StringData\<close> and \<open>Type\<close>. The
  two pointers may be equal.
\<close>

theorem Update_frame:
  fixes hc :: "addr \<Rightarrow> ('m, 'z) ConfigMap_scheme" and hs :: "addr \<Rightarrow> ('n, 'y) Secret_scheme"
  shows
  "(\<exists>hc'. UpdateConfigMap hc (Some old) (Some new) = Inr hc'
      \<and> Labels (ConfigMap.ObjectMeta (hc' old)) = Labels (ConfigMap.ObjectMeta (hc new))
      \<and> ConfigMap.Data (hc' old) = ConfigMap.Data (hc new)
      \<and> BinaryData (hc' old) = BinaryData (hc new)
      \<and> ConfigMap_rest (hc' old) = ConfigMap_rest (hc old)
      \<and> hc' new = hc new
      \<and> (\<forall>a. a \<noteq> old \<longrightarrow> hc' a = hc a))
   \<and> (\<exists>hs'. UpdateSecret hs (Some old) (Some new) = Inr hs'
      \<and> Labels (Secret.ObjectMeta (hs' old)) = Labels (Secret.ObjectMeta (hs new))
      \<and> Secret.Data (hs' old) = Secret.Data (hs new)
      \<and> StringData (hs' old) = StringData (hs new)
      \<and> Type (hs' old) = Type (hs new)
      \<and> Secret_rest (hs' old) = Secret_rest (hs old)
      \<and> hs' new = hs new
      \<and> (\<forall>a. a \<noteq> old \<longrightarrow> hs' a = hs a))"
  by (simp add: UpdateConfigMap_def UpdateSecret_def then_do_def assign_def load_def modify_def ConfigMap_rest_def Secret_rest_def)

lemma ConfigMap_rest_Name:
  "ObjectMeta.Name (ConfigMap.ObjectMeta (ConfigMap_rest c)) = ObjectMeta.Name (ConfigMap.ObjectMeta c)"
  by (simp add: ConfigMap_rest_def)

lemma Secret_rest_Name:
  "ObjectMeta.Name (Secret.ObjectMeta (Secret_rest s)) = ObjectMeta.Name (Secret.ObjectMeta s)"
  by (simp add: Secret_rest_def)

theorem Update_frame_witness:
  "(\<exists>hc'. UpdateConfigMap sample_configMaps (Some 0) (Some 1) = Inr hc'
      \<and> ObjectMeta.Name (ConfigMap.ObjectMeta (hc' 0)) = ''settings''
      \<and> Labels (ConfigMap.ObjectMeta (hc' 0)) = Some [''app'' \<mapsto> ''v2'']
      \<and> ConfigMap.Data (hc' 0) = None
      \<and> hc' 1 = sample_configMaps 1
      \<and> (2 :: addr) \<noteq> 0 \<and> hc' 2 = sample_configMaps 2)
   \<and> (\<exists>hs'. UpdateSecret sample_secrets (Some 0) (Some 1) = Inr hs'
      \<and> ObjectMeta.Name (Secret.ObjectMeta (hs' 0)) = ''token''
      \<and> Labels (Secret.ObjectMeta (hs' 0)) = None
      \<and> Type (hs' 0) = ''kubernetes.io/tls''
      \<and> hs' 1 = sample_secrets 1
      \<and> (2 :: addr) \<noteq> 0 \<and> hs' 2 = sample_secrets 2)"
proof -
  have n: "(2 :: addr) \<noteq> 0" by simp
  from Update_frame [of sample_configMaps 0 1 sample_secrets]
  obtain hc' hs' where
    c: "UpdateConfigMap sample_configMaps (Some 0) (Some 1) = Inr hc'"
      "Labels (ConfigMap.ObjectMeta (hc' 0)) = Labels (ConfigMap.ObjectMeta (sample_configMaps 1))"
      "ConfigMap.Data (hc' 0) = ConfigMap.Data (sample_configMaps 1)"
      "ConfigMap_rest (hc' 0) = ConfigMap_rest (sample_configMaps 0)"
      "hc' 1 = sample_configMaps 1"
      "\<forall>a. a \<noteq> 0 \<longrightarrow> hc' a = sample_configMaps a"
    and s: "UpdateSecret sample_secrets (Some 0) (Some 1) = Inr hs'"
      "Labels (Secret.ObjectMeta (hs' 0)) = Labels (Secret.ObjectMeta (sample_secrets 1))"
      "Type (hs' 0) = Type (sample_secrets 1)"
      "Secret_rest (hs' 0) = Secret_rest (sample_secrets 0)"
      "hs' 1 = sample_secrets 1"
      "\<forall>a. a \<noteq> 0 \<longrightarrow> hs' a = sample_secrets a"
    by blast
  have cn: "ObjectMeta.Name (ConfigMap.ObjectMeta (hc' 0)) = ''settings''"
    using ConfigMap_rest_Name [of "hc' 0"] c(4)
    by (simp add: ConfigMap_rest_Name sample_configMaps_def sample_configMap_def sample_meta_def)
  have sn: "ObjectMeta.Name (Secret.ObjectMeta (hs' 0)) = ''token''"
    using Secret_rest_Name [of "hs' 0"] s(4)
    by (simp add: Secret_rest_Name sample_secrets_def sample_secret_def sample_meta_def)
  have cv: "Labels (ConfigMap.ObjectMeta (hc' 0)) = Some [''app'' \<mapsto> ''v2'']"
    "ConfigMap.Data (hc' 0) = None"
    using c(2,3) by (simp_all add: sample_configMaps_def sample_configMap_def sample_meta_def)
  have sv: "Labels (Secret.ObjectMeta (hs' 0)) = None" "Type (hs' 0) = ''kubernetes.io/tls''"
    using s(2,3) by (simp_all add: sample_secrets_def sample_secret_def sample_meta_def)
  from n c(6) have c2: "hc' 2 = sample_configMaps 2" by blast
  from n s(6) have s2: "hs' 2 = sample_secrets 2" by blast
  from n c(1,5) s(1,5) cn sn cv sv c2 s2 show ?thesis by blast
qed

section \<open>Package k8sadapter: properties\<close>

text \<open>All three functions append, in the order of the volumes.\<close>

lemma getSecrets_pull_eq:
  "getSecrets_pull secretNames ss = secretNames @ map LocalObjectReference.Name ss"
  by (induction ss arbitrary: secretNames) simp_all

lemma getConfigmaps_volumes_eq:
  "getConfigmaps_volumes cmNames vs =
     cmNames @ map (\<lambda>c. LocalObjectReference.Name (ConfigMapVolumeSource.LocalObjectReference c))
                 (List.map_filter ConfigMap vs)"
  by (induction vs arbitrary: cmNames) (simp_all add: List.map_filter_simps split: option.split)

lemma getPVCs_volumes_eq:
  "getPVCs_volumes cmNames vs = cmNames @ map ClaimName (List.map_filter PersistentVolumeClaim vs)"
  by (induction vs arbitrary: cmNames) (simp_all add: List.map_filter_simps split: option.split)

text \<open>
  \<open>getConfigmaps\<close> returns the ConfigMap names of the volumes with a ConfigMap source,
  and \<open>getPVCs\<close> the claim names of the volumes with a PersistentVolumeClaim source,
  both in the order of the volumes.
\<close>

lemma getConfigmaps_eq:
  "getConfigmaps (Some p) =
     Inr (map (\<lambda>c. LocalObjectReference.Name (ConfigMapVolumeSource.LocalObjectReference c))
            (List.map_filter ConfigMap (elems (Volumes (Spec p)))))"
  by (simp add: getConfigmaps_def getConfigmaps_volumes_eq)

lemma getPVCs_eq:
  "getPVCs (Some p) =
     Inr (map ClaimName (List.map_filter PersistentVolumeClaim (elems (Volumes (Spec p)))))"
  by (simp add: getPVCs_def getPVCs_volumes_eq)

text \<open>
  One iteration of the loop of \<open>getSecrets\<close>: it panics on a CephFS, Cinder or RBD
  volume without a \<open>SecretRef\<close>, and appends the names of the volume otherwise.
\<close>

lemma getSecrets_volumes_step:
  "getSecrets_volumes secretNames (v # vs) =
     (if missing_ref v then Inl NilPointerDereference
      else getSecrets_volumes (secretNames @ secret_names v) vs)"
  by (auto simp add: missing_ref_def secret_names_def secret_ref_def kind_of_def
      split: option.split)

lemma getSecrets_volumes_eq:
  "getSecrets_volumes secretNames vs =
     (if \<exists>v \<in> set vs. missing_ref v then Inl NilPointerDereference
      else Inr (secretNames @ concat (map secret_names vs)))"
proof (induction vs arbitrary: secretNames)
  case Nil
  show ?case by simp
next
  case (Cons v vs)
  show ?case
    unfolding getSecrets_volumes_step
    by (simp add: Cons.IH)
qed

text \<open>
  \<open>getSecrets\<close> on a pod all of whose CephFS, Cinder and RBD volumes have a
  \<open>SecretRef\<close> returns the secret names of the secret volumes whose name does not
  start with \<open>default-token\<close> and the secret refs of the CephFS, Cinder and RBD
  volumes, in the order of the volumes, followed by the names of the image pull secrets.
  On any other pod it panics.
\<close>

lemma getSecrets_eq:
  "getSecrets (Some p) =
     (if \<exists>v \<in> set (elems (Volumes (Spec p))). missing_ref v then Inl NilPointerDereference
      else Inr (concat (map secret_names (elems (Volumes (Spec p))))
                @ map LocalObjectReference.Name (elems (ImagePullSecrets (Spec p)))))"
  by (simp add: getSecrets_def getSecrets_volumes_eq getSecrets_pull_eq elems_def
      split: option.split)

text \<open>
  C8. On a pod with one Cinder volume that has no \<open>SecretRef\<close>, \<open>getSecrets\<close> does
  not return the secrets the pod depends on (there are none): it panics, reading
  \<open>v.Cinder.SecretRef.Name\<close> through the nil \<open>SecretRef\<close>. \<open>getConfigmaps\<close> and
  \<open>getPVCs\<close> return the empty list on this pod.
\<close>

theorem getSecrets_Cinder_without_SecretRef:
  "getSecrets (Some (sample_pod
       [(sample_volume ''data'')\<lparr>Cinder := Some \<lparr>CinderVolumeSource.SecretRef = None\<rparr>\<rparr>]))
     = Inl NilPointerDereference
   \<and> getConfigmaps (Some (sample_pod
       [(sample_volume ''data'')\<lparr>Cinder := Some \<lparr>CinderVolumeSource.SecretRef = None\<rparr>\<rparr>]))
     = Inr []
   \<and> getPVCs (Some (sample_pod
       [(sample_volume ''data'')\<lparr>Cinder := Some \<lparr>CinderVolumeSource.SecretRef = None\<rparr>\<rparr>]))
     = Inr []"
  by (simp add: getSecrets_def getConfigmaps_def getPVCs_def sample_pod_def sample_volume_def
      elems_def)

end
